theory Spec2Isabelle
  imports Complex_Main "HOL-Library.AList" "HOL-Library.Sublist"
begin

section \<open>Python values and exceptions\<close>

text \<open>
  The documents that flow through the pipeline are plain Python data: \<open>None\<close>, booleans,
  numbers, strings, lists and dictionaries. A dictionary is an association list in
  insertion order; storing under a key that is present replaces the value in place and a
  new key goes to the end, as \<open>AList.update\<close> does. Strings are \<open>char\<close> lists.
  A float keeps its literal text: no claim computes with one.
\<close>

datatype pyval =
    PNone
  | PBool bool
  | PInt int
  | PFloat string
  | PStr string
  | PList "pyval list"
  | PDict "(string \<times> pyval) list"

datatype exn =
    AttributeError
  | TypeError
  | KeyError
  | IndexError
  | JSONDecodeError
  | Timeout
  | ConnectionError
  | OtherError

section \<open>The content extractor (\<open>universal_extractor.py\<close>)\<close>

text \<open>
  What the two PDF libraries hand back for one page is the input of the model: the text of
  each extractor (\<open>None\<close> allowed, the source writes \<open>or ""\<close>), the table grids, the
  size of the rendered pixmap (\<open>None\<close> when rendering or saving raised), the page rectangle
  with the type codes of its blocks (\<open>Inl\<close> the message of the exception), and the
  positioned blocks (\<open>None\<close> when the call raised).
\<close>

type_synonym table = "string option list list"

record plumber_page =
  extract_text :: "string option"
  extract_tables :: "table list option"

datatype raw_block =
    ShortBlock
  | Block real real real real string "int option"

record pymupdf_page =
  get_text :: "string option"
  get_pixmap :: "(nat \<times> nat) option"
  get_text_dict :: "string + (real \<times> real \<times> nat list)"
  get_text_blocks :: "raw_block list option"

record image_ref =
  img_page :: nat
  img_type :: string
  img_path :: string
  img_width :: nat
  img_height :: nat

datatype layout =
    Layout real real nat nat nat
  | LayoutError string

record text_block =
  x0 :: real
  y0 :: real
  x1 :: real
  y1 :: real
  block_text :: string
  block_type :: int

record page_content =
  page_number :: nat
  page_text :: string
  text_length :: nat
  tables :: "table list"
  table_count :: nat
  images :: "image_ref list"
  image_count :: nat
  page_layout :: layout
  text_blocks :: "text_block list"
  has_content :: bool

record pdf =
  pdf_path :: string
  plumber_pages :: "plumber_page list"
  pymupdf_pages :: "pymupdf_page list"
  fitz_metadata :: "(string \<times> pyval) list option"

record content =
  metadata :: "(string \<times> pyval) list"
  pages :: "page_content list"
  extraction_methods :: "(string \<times> bool) list"

text \<open>Python's \<open>isspace\<close> on the code points below 256; \<open>strip\<close> and the regular
  expression class \<open>\s\<close> both use it.\<close>

definition is_space :: "char \<Rightarrow> bool" where
  "is_space c = (of_char c \<in> {9, 10, 11, 12, 13, 28, 29, 30, 31, 32, 133, 160 :: nat})"

definition strip :: "string \<Rightarrow> string" where
  "strip s = rev (dropWhile is_space (rev (dropWhile is_space s)))"

fun str_nat :: "nat \<Rightarrow> string" where
  "str_nat n =
     (if n < 10 then [char_of (48 + n)]
      else str_nat (n div 10) @ [char_of (48 + n mod 10)])"

declare str_nat.simps [simp del]

definition basename :: "string \<Rightarrow> string" where
  "basename p = rev (takeWhile (\<lambda>c. c \<noteq> CHR ''/'') (rev p))"

definition dict_get :: "(string \<times> 'v) list \<Rightarrow> string \<Rightarrow> 'v \<Rightarrow> 'v" where
  "dict_get d k dflt = (case map_of d k of None \<Rightarrow> dflt | Some v \<Rightarrow> v)"

definition extract_metadata :: "pdf \<Rightarrow> (string \<times> pyval) list" where
  "extract_metadata p =
     (case fitz_metadata p of
        None \<Rightarrow> [(''source_file'', PStr (basename (pdf_path p)))]
      | Some m \<Rightarrow>
          [(''title'', dict_get m ''title'' (PStr '''')),
           (''author'', dict_get m ''author'' (PStr '''')),
           (''subject'', dict_get m ''subject'' (PStr '''')),
           (''creator'', dict_get m ''creator'' (PStr '''')),
           (''producer'', dict_get m ''producer'' (PStr '''')),
           (''creation_date'', dict_get m ''creationDate'' (PStr '''')),
           (''modification_date'', dict_get m ''modDate'' (PStr '''')),
           (''source_file'', PStr (basename (pdf_path p)))])"

definition extract_images_pymupdf :: "pymupdf_page \<Rightarrow> nat \<Rightarrow> image_ref list" where
  "extract_images_pymupdf pg page_num =
     (case get_pixmap pg of
        None \<Rightarrow> []
      | Some (w, h) \<Rightarrow>
          [\<lparr>img_page = page_num + 1, img_type = ''full_page'',
            img_path = ''output/images/page_'' @ str_nat (page_num + 1) @ ''_full.png'',
            img_width = w, img_height = h\<rparr>])"

definition analyze_layout :: "pymupdf_page \<Rightarrow> layout" where
  "analyze_layout pg =
     (case get_text_dict pg of
        Inl msg \<Rightarrow> LayoutError msg
      | Inr (w, h, blocks) \<Rightarrow>
          Layout w h (length blocks)
            (length (filter (\<lambda>t. t = 0) blocks))
            (length (filter (\<lambda>t. t = 1) blocks)))"

fun text_block_of :: "raw_block \<Rightarrow> text_block list" where
  "text_block_of ShortBlock = []"
| "text_block_of (Block a b c d t ty) =
     [\<lparr>x0 = a, y0 = b, x1 = c, y1 = d, block_text = strip t,
       block_type = (case ty of None \<Rightarrow> 0 | Some k \<Rightarrow> k)\<rparr>]"

definition extract_text_blocks :: "pymupdf_page \<Rightarrow> text_block list" where
  "extract_text_blocks pg =
     (case get_text_blocks pg of None \<Rightarrow> [] | Some bs \<Rightarrow> concat (map text_block_of bs))"

definition or_else :: "'a option \<Rightarrow> 'a \<Rightarrow> 'a" where
  "or_else v d = (case v of None \<Rightarrow> d | Some x \<Rightarrow> x)"

definition extract_page_multimethod ::
  "plumber_page \<Rightarrow> pymupdf_page \<Rightarrow> nat \<Rightarrow> page_content" where
  "extract_page_multimethod page_plumber page_pymupdf page_num =
     (let text_plumber = or_else (extract_text page_plumber) '''';
          text_pymupdf = or_else (get_text page_pymupdf) '''';
          txt = (if length text_plumber > length text_pymupdf
                 then text_plumber else text_pymupdf);
          tbls = or_else (extract_tables page_plumber) [];
          imgs = extract_images_pymupdf page_pymupdf page_num
      in \<lparr>page_number = page_num + 1,
          page_text = txt,
          text_length = length txt,
          tables = tbls,
          table_count = length tbls,
          images = imgs,
          image_count = length imgs,
          page_layout = analyze_layout page_pymupdf,
          text_blocks = extract_text_blocks page_pymupdf,
          has_content = (length txt > 0 \<or> length tbls > 0 \<or> length imgs > 0)\<rparr>)"

text \<open>
  The loop \<open>for page_num in range(self.total_pages)\<close>. The bound is the page count of
  the first library; indexing the second library's document past its end raises
  \<open>IndexError\<close>, which nothing in \<open>extract_complete_content\<close> catches.
\<close>

fun extract_pages :: "pdf \<Rightarrow> nat list \<Rightarrow> page_content list \<Rightarrow> exn + page_content list" where
  "extract_pages p [] acc = Inr acc"
| "extract_pages p (page_num # rest) acc =
     (if page_num < length (pymupdf_pages p) \<and> page_num < length (plumber_pages p)
      then extract_pages p rest
             (acc @ [extract_page_multimethod (plumber_pages p ! page_num)
                       (pymupdf_pages p ! page_num) page_num])
      else Inl IndexError)"

definition extract_complete_content :: "pdf \<Rightarrow> exn + content" where
  "extract_complete_content p =
     (let total_pages = length (plumber_pages p);
          meta = AList.update ''total_pages'' (PInt (int total_pages)) (extract_metadata p)
      in case extract_pages p [0..<total_pages] [] of
           Inl e \<Rightarrow> Inl e
         | Inr ps \<Rightarrow>
             Inr \<lparr>metadata = meta, pages = ps,
                  extraction_methods =
                    [(''text'', True), (''tables'', True), (''images'', True),
                     (''layout'', True)]\<rparr>)"

text \<open>A two-page catalogue: a page with text and a table, and a blank page whose
  rendering failed.\<close>

definition example_pdf :: pdf where
  "example_pdf =
     \<lparr>pdf_path = ''in/catalog.pdf'',
      plumber_pages =
        [\<lparr>extract_text = Some ''A100'',
          extract_tables = Some [[[Some ''Model'', Some ''Price''], [Some ''A100'', None]]]\<rparr>,
         \<lparr>extract_text = None, extract_tables = None\<rparr>],
      pymupdf_pages =
        [\<lparr>get_text = Some ''A100 '', get_pixmap = Some (1190, 1684),
          get_text_dict = Inr (595, 842, [0, 1]), get_text_blocks = Some []\<rparr>,
         \<lparr>get_text = Some '''', get_pixmap = None,
          get_text_dict = Inl ''no page'', get_text_blocks = None\<rparr>],
      fitz_metadata = None\<rparr>"


section \<open>The standard library: \<open>json.loads\<close>, \<open>in\<close>, \<open>re.search\<close>, \<open>re.sub\<close>\<close>

subsection \<open>Substring search\<close>

text \<open>\<open>find_after m s\<close> is the text that follows the first occurrence of \<open>m\<close> in \<open>s\<close>;
  \<open>m in s\<close> on two strings asks whether there is one.\<close>

fun find_after :: "string \<Rightarrow> string \<Rightarrow> string option" where
  "find_after m [] = (if m = [] then Some [] else None)"
| "find_after m (x # xs) =
     (if prefix m (x # xs) then Some (drop (length m) (x # xs)) else find_after m xs)"

definition str_in :: "string \<Rightarrow> string \<Rightarrow> bool" where
  "str_in m s = (find_after m s \<noteq> None)"

subsection \<open>The JSON decoder\<close>

text \<open>
  \<open>json.loads\<close> is modelled in two passes. The first cuts the text into tokens with a
  finite-state transducer that reads one character at a time; the second runs a pushdown
  automaton over the tokens and builds the value. \<open>None\<close> stands for \<open>JSONDecodeError\<close>.
  A number or literal is a maximal run of letters, digits, signs and dots: the decoder
  accepts a text only if each of them is followed by white space, a delimiter or the end.
  The decoder is the strict one (\<open>strict=True\<close>): no raw control character inside a
  string. An escape \<open>\uXXXX\<close> above \<open>00FF\<close> has no character in this model and is
  kept as its low byte; whether a text decodes does not depend on it. A repeated key
  keeps its first position and its last value, as a Python dictionary does. What the
  interpreter raises for lack of resources (recursion depth, the digit limit of
  integers) is outside the model.
\<close>

datatype token =
    TLBrace | TRBrace | TLBracket | TRBracket | TColon | TComma
  | TStr string
  | TAtom pyval

datatype lexmode =
    LDefault
  | LAtom string
  | LStr string
  | LEsc string
  | LUni string string

definition json_ws :: "char \<Rightarrow> bool" where
  "json_ws c = (c = CHR '' '' \<or> c = CHR 0x09 \<or> c = CHR 0x0A \<or> c = CHR 0x0D)"

definition is_digit :: "char \<Rightarrow> bool" where
  "is_digit c = (48 \<le> (of_char c :: nat) \<and> (of_char c :: nat) \<le> 57)"

definition is_alpha :: "char \<Rightarrow> bool" where
  "is_alpha c = ((65 \<le> (of_char c :: nat) \<and> (of_char c :: nat) \<le> 90)
                 \<or> (97 \<le> (of_char c :: nat) \<and> (of_char c :: nat) \<le> 122))"

definition atom_char :: "char \<Rightarrow> bool" where
  "atom_char c = (is_digit c \<or> is_alpha c \<or> c = CHR ''+'' \<or> c = CHR ''-'' \<or> c = CHR ''.'')"

definition digit_val :: "char \<Rightarrow> nat" where
  "digit_val c = of_char c - 48"

definition nat_of_digits :: "string \<Rightarrow> nat" where
  "nat_of_digits ds = foldl (\<lambda>n c. 10 * n + digit_val c) 0 ds"

definition exp_ok :: "string \<Rightarrow> bool" where
  "exp_ok r =
     (case r of
        [] \<Rightarrow> False
      | e # t \<Rightarrow>
          (e = CHR ''e'' \<or> e = CHR ''E'')
          \<and> (let ds = (case t of
                         [] \<Rightarrow> []
                       | s # u \<Rightarrow> if s = CHR ''+'' \<or> s = CHR ''-'' then u else t)
             in ds \<noteq> [] \<and> list_all is_digit ds))"

definition frac_exp_ok :: "string \<Rightarrow> bool" where
  "frac_exp_ok r =
     (case r of
        [] \<Rightarrow> False
      | d # t \<Rightarrow>
          if d = CHR ''.''
          then takeWhile is_digit t \<noteq> []
               \<and> (dropWhile is_digit t = [] \<or> exp_ok (dropWhile is_digit t))
          else exp_ok r)"

definition number_value :: "string \<Rightarrow> pyval option" where
  "number_value s =
     (let neg = (s \<noteq> [] \<and> hd s = CHR ''-'');
          r = (if neg then tl s else s);
          ip = takeWhile is_digit r;
          r1 = dropWhile is_digit r
      in if ip = [] \<or> (length ip > 1 \<and> hd ip = CHR ''0'') then None
         else if r1 = []
           then Some (PInt (if neg then - int (nat_of_digits ip) else int (nat_of_digits ip)))
         else if frac_exp_ok r1 then Some (PFloat s)
         else None)"

definition atom_value :: "string \<Rightarrow> pyval option" where
  "atom_value a =
     (if a = ''null'' then Some PNone
      else if a = ''true'' then Some (PBool True)
      else if a = ''false'' then Some (PBool False)
      else if a = ''NaN'' then Some (PFloat ''nan'')
      else if a = ''Infinity'' then Some (PFloat ''inf'')
      else if a = ''-Infinity'' then Some (PFloat ''-inf'')
      else number_value a)"

definition punct :: "char \<Rightarrow> token option" where
  "punct c =
     (if c = CHR ''{'' then Some TLBrace
      else if c = CHR ''}'' then Some TRBrace
      else if c = CHR ''['' then Some TLBracket
      else if c = CHR '']'' then Some TRBracket
      else if c = CHR '':'' then Some TColon
      else if c = CHR '','' then Some TComma
      else None)"

definition unescape :: "char \<Rightarrow> char option" where
  "unescape c =
     (if c = CHR 0x22 then Some (CHR 0x22)
      else if c = CHR 0x5C then Some (CHR 0x5C)
      else if c = CHR ''/'' then Some (CHR ''/'')
      else if c = CHR ''b'' then Some (CHR 0x08)
      else if c = CHR ''f'' then Some (CHR 0x0C)
      else if c = CHR ''n'' then Some (CHR 0x0A)
      else if c = CHR ''r'' then Some (CHR 0x0D)
      else if c = CHR ''t'' then Some (CHR 0x09)
      else None)"

definition is_hex :: "char \<Rightarrow> bool" where
  "is_hex c = (is_digit c
               \<or> (65 \<le> (of_char c :: nat) \<and> (of_char c :: nat) \<le> 70)
               \<or> (97 \<le> (of_char c :: nat) \<and> (of_char c :: nat) \<le> 102))"

definition hex_val :: "char \<Rightarrow> nat" where
  "hex_val c = (if is_digit c then of_char c - 48
                else if (of_char c :: nat) \<le> 70 then of_char c - 55
                else of_char c - 87)"

definition nat_of_hex :: "string \<Rightarrow> nat" where
  "nat_of_hex ds = foldl (\<lambda>n c. 16 * n + hex_val c) 0 ds"

definition default_step :: "char \<Rightarrow> (token list \<times> lexmode) option" where
  "default_step c =
     (if json_ws c then Some ([], LDefault)
      else case punct c of
             Some t \<Rightarrow> Some ([t], LDefault)
           | None \<Rightarrow>
               if c = CHR 0x22 then Some ([], LStr [])
               else if atom_char c then Some ([], LAtom [c])
               else None)"

fun lex_step :: "lexmode \<Rightarrow> char \<Rightarrow> (token list \<times> lexmode) option" where
  "lex_step LDefault c = default_step c"
| "lex_step (LAtom a) c =
     (if atom_char c then Some ([], LAtom (a @ [c]))
      else case atom_value a of
             None \<Rightarrow> None
           | Some v \<Rightarrow>
               (case default_step c of
                  None \<Rightarrow> None
                | Some (ts, m) \<Rightarrow> Some (TAtom v # ts, m)))"
| "lex_step (LStr acc) c =
     (if c = CHR 0x22 then Some ([TStr acc], LDefault)
      else if c = CHR 0x5C then Some ([], LEsc acc)
      else if (of_char c :: nat) < 32 then None
      else Some ([], LStr (acc @ [c])))"
| "lex_step (LEsc acc) c =
     (if c = CHR ''u'' then Some ([], LUni acc [])
      else case unescape c of
             None \<Rightarrow> None
           | Some d \<Rightarrow> Some ([], LStr (acc @ [d])))"
| "lex_step (LUni acc hex) c =
     (if is_hex c
      then (if length hex = 3
            then Some ([], LStr (acc @ [char_of (nat_of_hex (hex @ [c]))]))
            else Some ([], LUni acc (hex @ [c])))
      else None)"

fun lex_final :: "lexmode \<Rightarrow> token list option" where
  "lex_final LDefault = Some []"
| "lex_final (LAtom a) = (case atom_value a of None \<Rightarrow> None | Some v \<Rightarrow> Some [TAtom v])"
| "lex_final _ = None"

fun lex :: "lexmode \<Rightarrow> string \<Rightarrow> token list option" where
  "lex m [] = lex_final m"
| "lex m (c # cs) =
     (case lex_step m c of
        None \<Rightarrow> None
      | Some (ts, m') \<Rightarrow>
          (case lex m' cs of None \<Rightarrow> None | Some r \<Rightarrow> Some (ts @ r)))"

text \<open>
  The parser. The stack holds the containers under construction, innermost first; a key
  that waits for its value lies on top of its object. The flag \<open>lenient\<close> adds the two
  transitions of a decoder that tolerates a comma before a closing bracket or brace;
  \<open>json.loads\<close> is the parser with the flag off.
\<close>

datatype frame =
    FArr "pyval list"
  | FObj "(string \<times> pyval) list"
  | FKey string

datatype ctl = CValue | CFirst | CNext | CKeyFirst | CKey | CColon | CAfter

datatype pstate = PS ctl "frame list" | PDone pyval

fun push_value :: "pyval \<Rightarrow> frame list \<Rightarrow> pstate option" where
  "push_value v [] = Some (PDone v)"
| "push_value v (FArr items # st) = Some (PS CAfter (FArr (items @ [v]) # st))"
| "push_value v (FKey k # FObj pairs # st) =
     Some (PS CAfter (FObj (AList.update k v pairs) # st))"
| "push_value v _ = None"

fun close_array :: "frame list \<Rightarrow> pstate option" where
  "close_array (FArr items # st) = push_value (PList items) st"
| "close_array _ = None"

fun close_object :: "frame list \<Rightarrow> pstate option" where
  "close_object (FObj pairs # st) = push_value (PDict pairs) st"
| "close_object _ = None"

fun value_step :: "frame list \<Rightarrow> token \<Rightarrow> pstate option" where
  "value_step st (TStr s) = push_value (PStr s) st"
| "value_step st (TAtom v) = push_value v st"
| "value_step st TLBrace = Some (PS CKeyFirst (FObj [] # st))"
| "value_step st TLBracket = Some (PS CFirst (FArr [] # st))"
| "value_step st _ = None"

fun key_step :: "frame list \<Rightarrow> token \<Rightarrow> pstate option" where
  "key_step (FObj pairs # st) (TStr k) = Some (PS CColon (FKey k # FObj pairs # st))"
| "key_step _ _ = None"

text \<open>
  The control states: \<open>CValue\<close> a value must follow (at the start and after a colon);
  \<open>CFirst\<close> after \<open>[\<close>; \<open>CNext\<close> after a comma in an array; \<open>CKeyFirst\<close> after \<open>{\<close>;
  \<open>CKey\<close> after a comma in an object; \<open>CColon\<close> after a key; \<open>CAfter\<close> after a value
  inside a container.
\<close>

fun pstep :: "bool \<Rightarrow> pstate \<Rightarrow> token \<Rightarrow> pstate option" where
  "pstep lenient (PDone v) t = None"
| "pstep lenient (PS CValue st) t = value_step st t"
| "pstep lenient (PS CFirst st) t =
     (if t = TRBracket then close_array st else value_step st t)"
| "pstep lenient (PS CNext st) t =
     (if lenient \<and> t = TRBracket then close_array st else value_step st t)"
| "pstep lenient (PS CKeyFirst st) t =
     (if t = TRBrace then close_object st else key_step st t)"
| "pstep lenient (PS CKey st) t =
     (if lenient \<and> t = TRBrace then close_object st else key_step st t)"
| "pstep lenient (PS CColon st) t =
     (if t = TColon then Some (PS CValue st) else None)"
| "pstep lenient (PS CAfter st) t =
     (case st of
        FArr items # r \<Rightarrow>
          (if t = TComma then Some (PS CNext st)
           else if t = TRBracket then close_array st else None)
      | FObj pairs # r \<Rightarrow>
          (if t = TComma then Some (PS CKey st)
           else if t = TRBrace then close_object st else None)
      | _ \<Rightarrow> None)"

fun run :: "bool \<Rightarrow> pstate \<Rightarrow> token list \<Rightarrow> pstate option" where
  "run lenient s [] = Some s"
| "run lenient s (t # ts) =
     (case pstep lenient s t of None \<Rightarrow> None | Some s' \<Rightarrow> run lenient s' ts)"

definition decode :: "bool \<Rightarrow> string \<Rightarrow> pyval option" where
  "decode lenient s =
     (case lex LDefault s of
        None \<Rightarrow> None
      | Some ts \<Rightarrow>
          (case run lenient (PS CValue []) ts of
             Some (PDone v) \<Rightarrow> Some v
           | _ \<Rightarrow> None))"

definition json_loads :: "string \<Rightarrow> pyval option" where
  "json_loads s = decode False s"

subsection \<open>The regular expressions of the source\<close>

text \<open>
  \<open>re.sub(r',\s*}', '}', s)\<close> and \<open>re.sub(r',\s*]', ']', s)\<close>: scanning from the left, a
  comma followed by white space and the closing character \<open>c\<close> is replaced by \<open>c\<close>, and
  the scan goes on behind the match. \<open>match_close c s\<close> is the length of the match of
  \<open>\s*c\<close> at the start of \<open>s\<close>.
\<close>

fun match_close :: "char \<Rightarrow> string \<Rightarrow> nat option" where
  "match_close c [] = None"
| "match_close c (x # xs) =
     (if x = c then Some 1
      else if is_space x then map_option Suc (match_close c xs)
      else None)"

fun re_sub_comma :: "char \<Rightarrow> string \<Rightarrow> string" where
  "re_sub_comma c [] = []"
| "re_sub_comma c (x # xs) =
     (case (if x = CHR '','' then match_close c xs else None) of
        Some n \<Rightarrow> c # re_sub_comma c (drop n xs)
      | None \<Rightarrow> x # re_sub_comma c xs)"

text \<open>
  \<open>re.search(r'<open>\s*(.*?)\s*```', s, re.DOTALL)\<close> for an opening marker \<open><open>\<close>:
  the match starts at the first occurrence of the marker, the white space behind it is
  skipped, and the group is the shortest text behind which white space and three
  backquotes follow. \<open>lazy_group\<close> is the group, \<open>None\<close> when there is no match.
\<close>

definition closes :: "string \<Rightarrow> bool" where
  "closes s = prefix ''```'' (dropWhile is_space s)"

fun lazy_until :: "string \<Rightarrow> string \<Rightarrow> string option" where
  "lazy_until acc [] = None"
| "lazy_until acc (x # xs) =
     (if closes (x # xs) then Some acc else lazy_until (acc @ [x]) xs)"

definition lazy_group :: "string \<Rightarrow> string \<Rightarrow> string option" where
  "lazy_group opening s =
     (case find_after opening s of
        None \<Rightarrow> None
      | Some r \<Rightarrow> lazy_until [] (dropWhile is_space r))"

text \<open>
  The translator's patterns take the group greedily (\<open>(.*)\<close>): it runs up to the last
  three backquotes of the text, white space included.
\<close>

fun greedy_until :: "string \<Rightarrow> string \<Rightarrow> string option" where
  "greedy_until acc [] = None"
| "greedy_until acc (x # xs) =
     (case greedy_until (acc @ [x]) xs of
        Some g \<Rightarrow> Some g
      | None \<Rightarrow> if prefix ''```'' (x # xs) then Some acc else None)"

definition greedy_group :: "string \<Rightarrow> string \<Rightarrow> string option" where
  "greedy_group opening s =
     (case find_after opening s of
        None \<Rightarrow> None
      | Some r \<Rightarrow> greedy_until [] (dropWhile is_space r))"

section \<open>Dynamic typing\<close>

text \<open>
  The operations the source applies to values whose type it does not check: \<open>m in x\<close>,
  \<open>x[k]\<close>, \<open>x[0]\<close>, \<open>len(x)\<close>, \<open>x.get(k, d)\<close> and \<open>x.strip()\<close>, each with the
  exception Python raises on a value of the wrong type. The keys of a decoded
  dictionary are strings, so \<open>d[0]\<close> on one is a \<open>KeyError\<close>.
\<close>

fun py_contains :: "string \<Rightarrow> pyval \<Rightarrow> exn + bool" where
  "py_contains m (PStr s) = Inr (str_in m s)"
| "py_contains m (PList xs) = Inr (List.member xs (PStr m))"
| "py_contains m (PDict d) = Inr (map_of d m \<noteq> None)"
| "py_contains m _ = Inl TypeError"

fun py_getitem :: "pyval \<Rightarrow> string \<Rightarrow> exn + pyval" where
  "py_getitem (PDict d) k = (case map_of d k of None \<Rightarrow> Inl KeyError | Some v \<Rightarrow> Inr v)"
| "py_getitem _ k = Inl TypeError"

fun py_first :: "pyval \<Rightarrow> exn + pyval" where
  "py_first (PList []) = Inl IndexError"
| "py_first (PList (v # vs)) = Inr v"
| "py_first (PStr []) = Inl IndexError"
| "py_first (PStr (c # cs)) = Inr (PStr [c])"
| "py_first (PDict d) = Inl KeyError"
| "py_first _ = Inl TypeError"

fun py_len :: "pyval \<Rightarrow> exn + nat" where
  "py_len (PStr s) = Inr (length s)"
| "py_len (PList xs) = Inr (length xs)"
| "py_len (PDict d) = Inr (length d)"
| "py_len _ = Inl TypeError"

fun py_get :: "pyval \<Rightarrow> string \<Rightarrow> pyval \<Rightarrow> exn + pyval" where
  "py_get (PDict d) k dflt = Inr (dict_get d k dflt)"
| "py_get _ k dflt = Inl AttributeError"

fun py_strip :: "pyval \<Rightarrow> exn + string" where
  "py_strip (PStr s) = Inr (strip s)"
| "py_strip _ = Inl AttributeError"

fun py_setitem :: "pyval \<Rightarrow> string \<Rightarrow> pyval \<Rightarrow> exn + pyval" where
  "py_setitem (PDict d) k v = Inr (PDict (AList.update k v d))"
| "py_setitem _ k v = Inl TypeError"

definition and_then :: "exn + 'a \<Rightarrow> ('a \<Rightarrow> exn + 'b) \<Rightarrow> exn + 'b" where
  "and_then r f = (case r of Inl e \<Rightarrow> Inl e | Inr x \<Rightarrow> f x)"

section \<open>The catalog structurer (\<open>ai_analyzer.py\<close>)\<close>

text \<open>
  The outside world of one call: what the \<open>k\<close>-th HTTP POST of the call does (raises, or
  answers with a status and a body), and how the try block around a vendor SDK call ends
  (something in it raised, or the SDK handed back a completion). The text of the request
  is not modelled; \<open>post\<close> and \<open>sdk\<close> range over every behaviour of the network.
\<close>

record response =
  status_code :: int
  body :: string

datatype post_outcome = PostRaises exn | PostResponse response

datatype sdk_outcome = SdkRaises | SdkReturns pyval

record world =
  post :: "nat \<Rightarrow> post_outcome"
  sdk :: sdk_outcome

datatype provider = Deepseek | Anthropic | Huggingface | Google | Openai

record analyzer =
  use_vision :: bool
  ai_provider :: "provider option"

definition getenv :: "(string \<times> string) list \<Rightarrow> string \<Rightarrow> string \<Rightarrow> string" where
  "getenv environ name dflt = dict_get environ name dflt"

definition detect_available_ai :: "(string \<times> string) list \<Rightarrow> provider option" where
  "detect_available_ai environ =
     (let openai_key = strip (getenv environ ''OPENAI_API_KEY'' '''');
          anthropic_key = strip (getenv environ ''ANTHROPIC_API_KEY'' '''');
          google_key = strip (getenv environ ''GOOGLE_API_KEY'' '''');
          huggingface_key = strip (getenv environ ''HUGGINGFACE_API_KEY'' '''');
          deepseek_key = strip (getenv environ ''DEEPSEEK_API_KEY'' '''')
      in if deepseek_key \<noteq> [] \<and> prefix ''sk-'' deepseek_key then Some Deepseek
         else if anthropic_key \<noteq> [] \<and> prefix ''sk-ant-'' anthropic_key then Some Anthropic
         else if huggingface_key \<noteq> []
                 \<and> (prefix ''hf_'' huggingface_key \<or> length huggingface_key > 20)
           then Some Huggingface
         else if google_key \<noteq> [] \<and> length google_key > 20 then Some Google
         else if openai_key \<noteq> [] \<and> prefix ''sk-'' openai_key \<and> length openai_key > 20
           then Some Openai
         else None)"

definition analyzer_init :: "bool \<Rightarrow> (string \<times> string) list \<Rightarrow> analyzer" where
  "analyzer_init vision environ =
     \<lparr>use_vision = vision, ai_provider = detect_available_ai environ\<rparr>"

definition no_ai_configured :: pyval where
  "no_ai_configured =
     PDict
      [(''product_family'', PStr ''AI Configuration Required''),
       (''category'', PStr ''Please Add API Key''),
       (''company'',
          PDict [(''name'', PStr ''Configure AI to extract company info''),
                 (''website'', PStr ''''),
                 (''phone'', PStr '''')]),
       (''products'',
          PList
           [PDict
             [(''name'', PStr ''AI API Key Required''),
              (''model'', PStr ''N/A''),
              (''tagline'', PStr ''Add API key to .env file to enable extraction''),
              (''description'',
                 PStr (''This system uses AI to intelligently extract product information ''
                       @ ''from ANY catalog. Please configure an AI provider by adding your ''
                       @ ''API key to the .env file in the config folder.'')),
              (''features'',
                 PList [PStr ''Real-time AI extraction'', PStr ''Works with any PDF type'',
                        PStr ''98%+ accuracy with proper AI'']),
              (''specifications'', PDict []),
              (''applications'', PList []),
              (''pricing'',
                 PDict [(''price'', PStr ''Configure AI''), (''currency'', PStr ''USD'')])]])]"

definition extraction_error :: pyval where
  "extraction_error =
     PDict [(''product_family'', PStr ''Extraction Error''),
            (''category'', PStr ''AI Response Invalid''),
            (''company'', PDict []),
            (''products'', PList [])]"

definition parse_error :: pyval where
  "parse_error =
     PDict [(''product_family'', PStr ''Product Catalog''),
            (''category'', PStr ''General''),
            (''company'', PDict []),
            (''products'', PList [])]"

definition repair :: "string \<Rightarrow> string" where
  "repair json_text = re_sub_comma (CHR '']'') (re_sub_comma (CHR ''}'') json_text)"

text \<open>
  \<open>_parse_ai_response\<close>: the strict parse; on \<open>JSONDecodeError\<close> the repair and a second
  strict parse, and the extraction-error document when that fails too; on any other
  exception (\<open>strip\<close> on a value that is not a string) the third handler's document.
\<close>

definition parse_ai_response :: "pyval \<Rightarrow> pyval" where
  "parse_ai_response response_text =
     (case py_strip response_text of
        Inl e \<Rightarrow> parse_error
      | Inr json_text \<Rightarrow>
          (case json_loads json_text of
             Some data \<Rightarrow> data
           | None \<Rightarrow>
               (case json_loads (repair json_text) of
                  Some data \<Rightarrow> data
                | None \<Rightarrow> extraction_error)))"

text \<open>
  \<open>self._analyze_with_advanced_rules\<close>: the class defines no attribute of this name, so
  evaluating the call raises \<open>AttributeError\<close> wherever the source reaches it.
\<close>

definition analyze_with_advanced_rules :: "content \<Rightarrow> exn + pyval" where
  "analyze_with_advanced_rules c = Inl AttributeError"

text \<open>Lines 157 to 165: the fence is taken off when the completion contains
  \<open>```json\<close>, or else three backquotes, and the pattern matches.\<close>

definition search_group :: "string \<Rightarrow> pyval \<Rightarrow> exn + pyval" where
  "search_group opening a =
     (case a of
        PStr s \<Rightarrow>
          (case lazy_group opening s of
             Some g \<Rightarrow> Inr (PStr (strip g))
           | None \<Rightarrow> Inr a)
      | _ \<Rightarrow> Inl TypeError)"

definition unfence :: "pyval \<Rightarrow> exn + pyval" where
  "unfence ai_response =
     and_then (py_contains ''```json'' ai_response) (\<lambda>tagged.
       if tagged then search_group ''```json'' ai_response
       else and_then (py_contains ''```'' ai_response) (\<lambda>fenced.
         if fenced then search_group ''```'' ai_response else Inr ai_response))"

definition response_json :: "response \<Rightarrow> exn + pyval" where
  "response_json r =
     (case json_loads (body r) of None \<Rightarrow> Inl JSONDecodeError | Some v \<Rightarrow> Inr v)"

definition has_choices :: "pyval \<Rightarrow> exn + bool" where
  "has_choices result =
     and_then (py_contains ''choices'' result) (\<lambda>present.
       if present
       then and_then (py_getitem result ''choices'') (\<lambda>choices.
              and_then (py_len choices) (\<lambda>n. Inr (n > 0)))
       else Inr False)"

definition first_content :: "pyval \<Rightarrow> exn + pyval" where
  "first_content result =
     and_then (py_getitem result ''choices'') (\<lambda>choices.
       and_then (py_first choices) (\<lambda>choice.
         and_then (py_getitem choice ''message'') (\<lambda>message.
           py_getitem message ''content'')))"

text \<open>What \<open>_analyze_with_deepseek\<close> does with the completion: the fence handling
  and then \<open>_parse_ai_response\<close>.\<close>

definition parse_completion :: "pyval \<Rightarrow> exn + pyval" where
  "parse_completion ai_response =
     and_then (unfence ai_response) (\<lambda>inner. Inr (parse_ai_response inner))"

text \<open>The body of the try block of \<open>_analyze_with_deepseek\<close> from the status check on.\<close>

definition deepseek_answer :: "response \<Rightarrow> exn + pyval" where
  "deepseek_answer r =
     (if status_code r = 200
      then and_then (response_json r) (\<lambda>result.
             and_then (has_choices result) (\<lambda>ok.
               if ok
               then and_then (first_content result) (\<lambda>ai_response.
                      and_then (parse_completion ai_response) (\<lambda>parsed_data.
                        and_then (py_get parsed_data ''products'' (PList [])) (\<lambda>products.
                          and_then (py_len products) (\<lambda>num_products.
                            Inr parsed_data))))
               else Inr no_ai_configured))
      else Inr no_ai_configured)"

text \<open>
  \<open>_analyze_with_deepseek\<close> returns the document and, for the model, the number of POST
  requests it sent. Only \<open>requests.exceptions.Timeout\<close> on the first request leads to a
  second one; whatever else is raised inside the try block ends in the outer handler.
\<close>

definition deepseek_try :: "world \<Rightarrow> (exn + pyval) \<times> nat" where
  "deepseek_try w =
     (case post w 0 of
        PostRaises e \<Rightarrow>
          (if e = Timeout
           then (case post w 1 of
                   PostRaises e' \<Rightarrow> (Inl e', 2)
                 | PostResponse r \<Rightarrow> (deepseek_answer r, 2))
           else (Inl e, 1))
      | PostResponse r \<Rightarrow> (deepseek_answer r, 1))"

definition analyze_with_deepseek :: "world \<Rightarrow> content \<Rightarrow> pyval \<times> nat" where
  "analyze_with_deepseek w c =
     (case deepseek_try w of
        (Inl e, n) \<Rightarrow> (no_ai_configured, n)
      | (Inr d, n) \<Rightarrow> (d, n))"

definition huggingface_document :: "pyval \<Rightarrow> pyval" where
  "huggingface_document description =
     PDict
      [(''product_family'', PStr ''Product Catalog''),
       (''category'', PStr ''Products''),
       (''company'', PDict []),
       (''products'',
          PList
           [PDict
             [(''name'', PStr ''See extracted data''),
              (''model'', PStr ''Hugging Face extraction''),
              (''description'', description),
              (''features'', PList []),
              (''specifications'', PDict []),
              (''applications'', PList []),
              (''pricing'',
                 PDict [(''price'', PStr ''See catalog''), (''currency'', PStr ''USD'')])]])]"

definition huggingface_answer :: "response \<Rightarrow> exn + pyval" where
  "huggingface_answer r =
     (if status_code r = 200
      then and_then (response_json r) (\<lambda>result.
             case result of
               PList (x # xs) \<Rightarrow>
                 and_then (py_get x ''summary_text'' (PStr '''')) (\<lambda>ai_summary.
                   Inr (huggingface_document ai_summary))
             | _ \<Rightarrow> Inr (huggingface_document (PStr ''AI analysis complete'')))
      else Inr no_ai_configured)"

definition analyze_with_huggingface :: "world \<Rightarrow> content \<Rightarrow> pyval" where
  "analyze_with_huggingface w c =
     (case post w 0 of
        PostRaises e \<Rightarrow> no_ai_configured
      | PostResponse r \<Rightarrow>
          (case huggingface_answer r of Inl e \<Rightarrow> no_ai_configured | Inr d \<Rightarrow> d))"

definition analyze_with_gpt4_vision :: "world \<Rightarrow> content \<Rightarrow> exn + pyval" where
  "analyze_with_gpt4_vision w c =
     (case sdk w of
        SdkReturns result_text \<Rightarrow> Inr (parse_ai_response result_text)
      | SdkRaises \<Rightarrow> analyze_with_advanced_rules c)"

definition analyze_with_claude_vision :: "world \<Rightarrow> content \<Rightarrow> exn + pyval" where
  "analyze_with_claude_vision w c =
     (case sdk w of
        SdkReturns result_text \<Rightarrow> Inr (parse_ai_response result_text)
      | SdkRaises \<Rightarrow> analyze_with_advanced_rules c)"

definition analyze_with_gemini_vision :: "world \<Rightarrow> content \<Rightarrow> exn + pyval" where
  "analyze_with_gemini_vision w c =
     (case sdk w of
        SdkReturns result_text \<Rightarrow> Inr (parse_ai_response result_text)
      | SdkRaises \<Rightarrow> analyze_with_advanced_rules c)"

definition analyze_with_vision_ai :: "analyzer \<Rightarrow> world \<Rightarrow> content \<Rightarrow> exn + pyval" where
  "analyze_with_vision_ai self w c =
     (if ai_provider self = Some Deepseek then Inr (fst (analyze_with_deepseek w c))
      else if ai_provider self = Some Openai then analyze_with_gpt4_vision w c
      else if ai_provider self = Some Anthropic then analyze_with_claude_vision w c
      else if ai_provider self = Some Google then analyze_with_gemini_vision w c
      else if ai_provider self = Some Huggingface then Inr (analyze_with_huggingface w c)
      else Inr no_ai_configured)"

definition analyze_with_text_ai :: "analyzer \<Rightarrow> world \<Rightarrow> content \<Rightarrow> exn + pyval" where
  "analyze_with_text_ai self w c =
     (if ai_provider self = Some Anthropic \<or> ai_provider self = Some Openai
      then (case sdk w of
              SdkReturns result \<Rightarrow> Inr (parse_ai_response result)
            | SdkRaises \<Rightarrow> analyze_with_advanced_rules c)
      else if ai_provider self = Some Deepseek then Inr (fst (analyze_with_deepseek w c))
      else if ai_provider self = Some Huggingface then Inr (analyze_with_huggingface w c)
      else Inr no_ai_configured)"

text \<open>
  \<open>analyze_catalog\<close>. After the branch, the summary line evaluates
  \<open>len(structured_data.get('products', []))\<close> outside any handler.
\<close>

definition analyze_catalog :: "analyzer \<Rightarrow> world \<Rightarrow> content \<Rightarrow> exn + pyval" where
  "analyze_catalog self w extracted_content =
     and_then
       (if ai_provider self \<noteq> None \<and> use_vision self
        then analyze_with_vision_ai self w extracted_content
        else if ai_provider self \<noteq> None
        then analyze_with_text_ai self w extracted_content
        else analyze_with_advanced_rules extracted_content)
       (\<lambda>structured_data.
          and_then (py_get structured_data ''products'' (PList [])) (\<lambda>products.
            and_then (py_len products) (\<lambda>n. Inr structured_data)))"

section \<open>The translator (\<open>translator.py\<close>)\<close>

text \<open>
  The translator assigns into the dictionary it was handed, so documents live in a store:
  a reference is an address, \<open>cells\<close> maps an address to the object there, and
  \<open>next_free\<close> is where the next new object goes. Only the top-level dictionary of a
  document is ever assigned into; what it contains is held by value.
\<close>

record heap =
  cells :: "nat \<Rightarrow> pyval"
  next_free :: nat

definition alloc :: "pyval \<Rightarrow> heap \<Rightarrow> nat \<times> heap" where
  "alloc v h = (next_free h, \<lparr>cells = (cells h)(next_free h := v), next_free = Suc (next_free h)\<rparr>)"

definition lower_char :: "char \<Rightarrow> char" where
  "lower_char c =
     (let n = (of_char c :: nat)
      in if (65 \<le> n \<and> n \<le> 90) \<or> (192 \<le> n \<and> n \<le> 222 \<and> n \<noteq> 215)
         then char_of (n + 32) else c)"

definition lower :: "string \<Rightarrow> string" where
  "lower s = map lower_char s"

text \<open>Lines 90 to 98: the same fence handling as the structurer's, with greedy groups.\<close>

definition unfence_greedy :: "string \<Rightarrow> string" where
  "unfence_greedy ai_response =
     (if str_in ''```json'' ai_response
      then (case greedy_group ''```json'' ai_response of
              Some g \<Rightarrow> strip g | None \<Rightarrow> ai_response)
      else if str_in ''```'' ai_response
      then (case greedy_group ''```'' ai_response of
              Some g \<Rightarrow> strip g | None \<Rightarrow> ai_response)
      else ai_response)"

text \<open>
  The try block of \<open>_translate_to_persian\<close> and \<open>_translate_to_chinese\<close>, which differ in
  the two tags only. \<open>Inr (Some t)\<close>: the block returned the translated document \<open>t\<close>;
  \<open>Inr None\<close>: control left the \<open>if\<close> and reached \<open>Translation failed\<close>; \<open>Inl e\<close>: the
  block raised.
\<close>

definition translate_try :: "bool \<Rightarrow> string \<Rightarrow> world \<Rightarrow> exn + pyval option" where
  "translate_try rtl lang w =
     (case post w 0 of
        PostRaises e \<Rightarrow> Inl e
      | PostResponse r \<Rightarrow>
          if status_code r = 200
          then and_then (response_json r) (\<lambda>result.
                 and_then (has_choices result) (\<lambda>ok.
                   if ok
                   then and_then (first_content result) (\<lambda>content.
                          and_then (py_strip content) (\<lambda>ai_response.
                            case json_loads (unfence_greedy ai_response) of
                              None \<Rightarrow> Inl JSONDecodeError
                            | Some translated_data \<Rightarrow>
                                and_then (py_setitem translated_data ''_rtl'' (PBool rtl)) (\<lambda>t1.
                                  and_then (py_setitem t1 ''_language'' (PStr lang)) (\<lambda>t2.
                                    and_then (py_get t2 ''products'' (PList [])) (\<lambda>products.
                                      and_then (py_len products) (\<lambda>n. Inr (Some t2)))))))
                   else Inr None))
          else Inr None)"

text \<open>\<open>data['_rtl'] = ...; data['_language'] = ...\<close> on the object at \<open>data\<close>.\<close>

definition tag :: "bool \<Rightarrow> string \<Rightarrow> nat \<Rightarrow> heap \<Rightarrow> exn + heap" where
  "tag rtl lang data h =
     and_then (py_setitem (cells h data) ''_rtl'' (PBool rtl)) (\<lambda>d1.
       and_then (py_setitem d1 ''_language'' (PStr lang)) (\<lambda>d2.
         Inr (h\<lparr>cells := (cells h)(data := d2)\<rparr>)))"

definition return_tagged :: "bool \<Rightarrow> string \<Rightarrow> nat \<Rightarrow> heap \<Rightarrow> (exn + nat) \<times> heap" where
  "return_tagged rtl lang data h =
     (case tag rtl lang data h of Inl e \<Rightarrow> (Inl e, h) | Inr h' \<Rightarrow> (Inr data, h'))"

definition translate_with :: "bool \<Rightarrow> string \<Rightarrow> world \<Rightarrow> nat \<Rightarrow> heap \<Rightarrow> (exn + nat) \<times> heap" where
  "translate_with rtl lang w data h =
     (case translate_try rtl lang w of
        Inr (Some translated_data) \<Rightarrow>
          (case alloc translated_data h of (r, h') \<Rightarrow> (Inr r, h'))
      | Inr None \<Rightarrow>
          (case tag rtl lang data h of
             Inr h' \<Rightarrow> (Inr data, h')
           | Inl e \<Rightarrow> return_tagged rtl lang data h)
      | Inl e \<Rightarrow> return_tagged rtl lang data h)"

definition translate_to_persian :: "world \<Rightarrow> nat \<Rightarrow> heap \<Rightarrow> (exn + nat) \<times> heap" where
  "translate_to_persian w data h = translate_with True ''fa'' w data h"

definition translate_to_chinese :: "world \<Rightarrow> nat \<Rightarrow> heap \<Rightarrow> (exn + nat) \<times> heap" where
  "translate_to_chinese w data h = translate_with False ''zh'' w data h"

definition translate_to_language ::
  "world \<Rightarrow> nat \<Rightarrow> string \<Rightarrow> heap \<Rightarrow> (exn + nat) \<times> heap" where
  "translate_to_language w structured_data target_language h =
     (if lower target_language = ''persian'' then translate_to_persian w structured_data h
      else if lower target_language = ''chinese'' then translate_to_chinese w structured_data h
      else (Inr structured_data, h))"

section \<open>Example inputs\<close>

definition empty_content :: content where
  "empty_content = \<lparr>metadata = [], pages = [], extraction_methods = []\<rparr>"

text \<open>A network on which every request is answered with status 500.\<close>

definition server_error_world :: world where
  "server_error_world =
     \<lparr>post = (\<lambda>k. PostResponse \<lparr>status_code = 500, body = ''Internal Server Error''\<rparr>),
      sdk = SdkRaises\<rparr>"

text \<open>An environment with an Anthropic key only, and one with a DeepSeek key only.\<close>

definition anthropic_environ :: "(string \<times> string) list" where
  "anthropic_environ = [(''ANTHROPIC_API_KEY'', ''sk-ant-api03-0123456789'')]"

definition deepseek_environ :: "(string \<times> string) list" where
  "deepseek_environ = [(''DEEPSEEK_API_KEY'', ''sk-0123456789abcdef'')]"

text \<open>A store with one document at address 0, and a network whose first answer carries a
  completion that is the empty JSON object.\<close>

definition example_heap :: heap where
  "example_heap = \<lparr>cells = (\<lambda>a. if a = 0 then extraction_error else PNone), next_free = 1\<rparr>"

definition translation_world :: world where
  "translation_world =
     \<lparr>post = (\<lambda>k. PostResponse
                \<lparr>status_code = 200,
                 body = ''{\"choices\":[{\"message\":{\"content\":\"{}\"}}]}''\<rparr>),
      sdk = SdkRaises\<rparr>"


section \<open>Notions used in the proofs\<close>

text \<open>
  Whether a text decodes does not depend on what its strings and numbers are. \<open>erase\<close>
  forgets the content of a token, \<open>shape\<close> the values a parser state has collected,
  \<open>mode_shape\<close> the characters a lexer mode has read into a string.
\<close>

fun erase :: "token \<Rightarrow> token" where
  "erase (TStr s) = TStr []"
| "erase (TAtom v) = TAtom PNone"
| "erase t = t"

fun erase_frame :: "frame \<Rightarrow> frame" where
  "erase_frame (FArr items) = FArr []"
| "erase_frame (FObj pairs) = FObj []"
| "erase_frame (FKey k) = FKey []"

fun shape :: "pstate \<Rightarrow> pstate" where
  "shape (PS c st) = PS c (map erase_frame st)"
| "shape (PDone v) = PDone PNone"






section \<open>Properties of the extractor\<close>

lemma extract_pages_ok:
  "\<forall>i \<in> set is. i < length (pymupdf_pages p) \<and> i < length (plumber_pages p) \<Longrightarrow>
   extract_pages p is acc =
     Inr (acc @ map (\<lambda>i. extract_page_multimethod (plumber_pages p ! i)
                          (pymupdf_pages p ! i) i) is)"
  by (induction "is" arbitrary: acc) simp_all

lemma page_number_extract_page [simp]:
  "page_number (extract_page_multimethod a b i) = Suc i"
  by (simp add: extract_page_multimethod_def Let_def)

lemma map_Suc_upt_from_0: "map Suc [0..<n] = [1..<Suc n]"
  by (simp add: map_Suc_upt)

lemma total_pages_stored:
  "map_of (AList.update ''total_pages'' v m) ''total_pages'' = Some v"
  by (simp add: update_conv')

text \<open>
  C9. For a PDF that both libraries open with the same N pages, extraction returns a
  document whose \<open>pages\<close> sequence has length N, whose \<open>page_number\<close> values are
  1, 2, ..., N in this order, and whose \<open>metadata.total_pages\<close> is N.
\<close>

theorem C9_pages_contiguous:
  assumes "length (plumber_pages p) = n" and "length (pymupdf_pages p) = n"
  shows "\<exists>c. extract_complete_content p = Inr c
           \<and> length (pages c) = n
           \<and> map page_number (pages c) = [1..<Suc n]
           \<and> map_of (metadata c) ''total_pages'' = Some (PInt (int n))"
proof -
  have ok: "\<forall>i \<in> set [0..<n]. i < length (pymupdf_pages p) \<and> i < length (plumber_pages p)"
    using assms by simp
  have loop: "extract_pages p [0..<n] [] =
      Inr (map (\<lambda>i. extract_page_multimethod (plumber_pages p ! i)
                      (pymupdf_pages p ! i) i) [0..<n])"
    using extract_pages_ok [OF ok, of "[]"] by simp
  have nums: "map page_number (map (\<lambda>i. extract_page_multimethod (plumber_pages p ! i)
                      (pymupdf_pages p ! i) i) [0..<n]) = [1..<Suc n]"
    by (simp add: comp_def map_Suc_upt_from_0)
  show ?thesis
    using loop nums assms(1)
    by (simp add: extract_complete_content_def Let_def total_pages_stored)
qed

theorem C9_pages_contiguous_witness:
  "length (plumber_pages example_pdf) = 2 \<and> length (pymupdf_pages example_pdf) = 2
   \<and> (\<exists>c. extract_complete_content example_pdf = Inr c
           \<and> length (pages c) = 2
           \<and> map page_number (pages c) = [1..<Suc 2]
           \<and> map_of (metadata c) ''total_pages'' = Some (PInt (int 2)))"
proof -
  have a: "length (plumber_pages example_pdf) = 2" by (simp add: example_pdf_def)
  have b: "length (pymupdf_pages example_pdf) = 2" by (simp add: example_pdf_def)
  show ?thesis using a b C9_pages_contiguous [OF a b] by blast
qed

text \<open>
  C10. On every extracted page the flag \<open>has_content\<close> is true exactly when the page's
  own text, tables or images are non-empty.
\<close>

theorem C10_has_content:
  "has_content (extract_page_multimethod a b i) =
     (length (page_text (extract_page_multimethod a b i)) > 0
      \<or> length (tables (extract_page_multimethod a b i)) > 0
      \<or> length (images (extract_page_multimethod a b i)) > 0)"
  by (simp add: extract_page_multimethod_def Let_def)

section \<open>Properties of the structurer\<close>

lemma and_then_Inr [simp]: "and_then (Inr x) f = f x"
  by (simp add: and_then_def)

lemma and_then_Inl [simp]: "and_then (Inl e) f = Inl e"
  by (simp add: and_then_def)

lemma detect_no_variables [simp]: "detect_available_ai [] = None"
  by (simp add: detect_available_ai_def getenv_def dict_get_def strip_def)

lemma detect_anthropic [simp]: "detect_available_ai anthropic_environ = Some Anthropic"
  by (simp add: detect_available_ai_def getenv_def dict_get_def strip_def is_space_def
      anthropic_environ_def)

lemma detect_deepseek [simp]: "detect_available_ai deepseek_environ = Some Deepseek"
  by (simp add: detect_available_ai_def getenv_def dict_get_def strip_def is_space_def
      deepseek_environ_def)

lemma products_of_sentinel:
  "and_then (py_get no_ai_configured ''products'' (PList [])) (\<lambda>products.
     and_then (py_len products) (\<lambda>n. Inr no_ai_configured)) = Inr no_ai_configured"
  by (simp add: no_ai_configured_def and_then_def dict_get_def)

text \<open>
  C1. The claim says that with no valid credential \<open>analyze_catalog\<close> returns the
  "AI not configured" document. The code does not: with an empty environment no provider
  is selected, \<open>analyze_catalog\<close> takes its third branch, and the call of the undefined
  method raises \<open>AttributeError\<close>, for every document and either setting of the vision
  flag.
\<close>

theorem C1_no_credentials_raises:
  "analyze_catalog (analyzer_init vision []) w c = Inl AttributeError"
  by (simp add: analyze_catalog_def analyzer_init_def analyze_with_advanced_rules_def
      and_then_def)

text \<open>
  C2. The claim says that \<open>analyze_catalog\<close> never raises. With an Anthropic key, vision
  off and a provider call that raises, the handler of \<open>_analyze_with_text_ai\<close> calls the
  undefined method and the \<open>AttributeError\<close> reaches the caller.
\<close>

theorem C2_provider_failure_propagates:
  "analyze_catalog (analyzer_init False anthropic_environ) server_error_world empty_content
     = Inl AttributeError"
  by (simp add: analyze_catalog_def analyzer_init_def analyze_with_text_ai_def
      analyze_with_advanced_rules_def and_then_def server_error_world_def)

text \<open>
  C3, as stated, fails: a non-success status is not surfaced to the caller as an error.
  On a network that answers 500, the structurer with a DeepSeek key returns the
  "AI not configured" document.
\<close>

theorem C3_counterexample:
  "post server_error_world 0
     = PostResponse \<lparr>status_code = 500, body = ''Internal Server Error''\<rparr>
   \<and> analyze_catalog (analyzer_init True deepseek_environ) server_error_world empty_content
     = Inr no_ai_configured"
  by (simp add: analyze_catalog_def analyzer_init_def analyze_with_vision_ai_def
      analyze_with_deepseek_def deepseek_try_def deepseek_answer_def server_error_world_def
      products_of_sentinel)

text \<open>
  C3, amended. When the first request of \<open>_analyze_with_deepseek\<close> raises anything but
  a timeout, or is answered with a status other than 200, no second request is sent
  (one POST in all) and the function returns the "AI not configured" document; the
  status and the first 200 characters of the body are printed, not returned.
\<close>

theorem C3_failure_not_retried:
  assumes "(\<exists>e. post w 0 = PostRaises e \<and> e \<noteq> Timeout)
           \<or> (\<exists>r. post w 0 = PostResponse r \<and> status_code r \<noteq> 200)"
  shows "analyze_with_deepseek w c = (no_ai_configured, 1)"
  using assms
  by (auto simp: analyze_with_deepseek_def deepseek_try_def deepseek_answer_def)

theorem C3_failure_not_retried_witness:
  "post server_error_world 0
     = PostResponse \<lparr>status_code = 500, body = ''Internal Server Error''\<rparr>
   \<and> status_code \<lparr>status_code = 500, body = ''Internal Server Error''\<rparr> \<noteq> 200
   \<and> analyze_with_deepseek server_error_world empty_content = (no_ai_configured, 1)"
proof -
  have p: "post server_error_world 0
     = PostResponse \<lparr>status_code = 500, body = ''Internal Server Error''\<rparr>"
    by (simp add: server_error_world_def)
  have h: "(\<exists>e. post server_error_world 0 = PostRaises e \<and> e \<noteq> Timeout)
           \<or> (\<exists>r. post server_error_world 0 = PostResponse r \<and> status_code r \<noteq> 200)"
    using p by simp
  show ?thesis
    using p C3_failure_not_retried [OF h, of empty_content] by simp
qed



section \<open>Properties of the translator\<close>

lemma tag_dict:
  "cells h data = PDict d \<Longrightarrow>
   tag rtl code data h =
     Inr (h\<lparr>cells := (cells h)(data :=
            PDict (AList.update ''_language'' (PStr code)
                    (AList.update ''_rtl'' (PBool rtl) d)))\<rparr>)"
  by (simp add: tag_def)

lemma tag_cases:
  "(\<exists>d. cells h data = PDict d \<and> tag rtl code data h =
     Inr (h\<lparr>cells := (cells h)(data :=
            PDict (AList.update ''_language'' (PStr code)
                    (AList.update ''_rtl'' (PBool rtl) d)))\<rparr>))
   \<or> (\<exists>e. tag rtl code data h = Inl e)"
  by (cases "cells h data") (simp_all add: tag_def)

lemma translate_with_failure:
  assumes "cells h data = PDict d"
    and "(\<exists>e. translate_try rtl code w = Inl e) \<or> translate_try rtl code w = Inr None"
  shows "translate_with rtl code w data h =
     (Inr data, h\<lparr>cells := (cells h)(data :=
            PDict (AList.update ''_language'' (PStr code)
                    (AList.update ''_rtl'' (PBool rtl) d)))\<rparr>)"
  using assms by (auto simp: translate_with_def return_tagged_def tag_dict)

text \<open>The ways the provider call fails, as the try block sees them: the request raises,
  the status is not 200, the body is not JSON, or the answer has no choices.\<close>

lemma translate_try_raises:
  "post w 0 = PostRaises e \<Longrightarrow> translate_try rtl code w = Inl e"
  by (simp add: translate_try_def)

lemma translate_try_status:
  "post w 0 = PostResponse r \<Longrightarrow> status_code r \<noteq> 200 \<Longrightarrow> translate_try rtl code w = Inr None"
  by (simp add: translate_try_def)

lemma translate_try_body:
  "post w 0 = PostResponse r \<Longrightarrow> status_code r = 200 \<Longrightarrow> json_loads (body r) = None \<Longrightarrow>
   translate_try rtl code w = Inl JSONDecodeError"
  by (simp add: translate_try_def response_json_def)

lemma translate_try_no_choices:
  "post w 0 = PostResponse r \<Longrightarrow> status_code r = 200 \<Longrightarrow>
   json_loads (body r) = Some result \<Longrightarrow> has_choices result = Inr False \<Longrightarrow>
   translate_try rtl code w = Inr None"
  by (simp add: translate_try_def response_json_def)

lemma translate_try_completion:
  "post w 0 = PostResponse r \<Longrightarrow> status_code r = 200 \<Longrightarrow>
   json_loads (body r) = Some result \<Longrightarrow> has_choices result = Inr True \<Longrightarrow>
   first_content result = Inr (PStr c) \<Longrightarrow> json_loads (unfence_greedy (strip c)) = None \<Longrightarrow>
   translate_try rtl code w = Inl JSONDecodeError"
  by (simp add: translate_try_def response_json_def)

text \<open>
  C7. Let the document be a dictionary and the target language Persian or Chinese (in
  any letter case). When the try block of the translation does not return a translated
  document, because it raised or because it fell through to "Translation failed", then
  \<open>translate_to_language\<close> raises nothing and returns the original document with
  \<open>_rtl\<close> and \<open>_language\<close> set as the language asks.
\<close>

theorem C7_failure_returns_tagged_original:
  assumes "cells h data = PDict d"
    and "(lower target = ''persian'' \<and> rtl \<and> code = ''fa'')
         \<or> (lower target = ''chinese'' \<and> \<not> rtl \<and> code = ''zh'')"
    and "(\<exists>e. translate_try rtl code w = Inl e) \<or> translate_try rtl code w = Inr None"
  shows "translate_to_language w data target h =
     (Inr data, h\<lparr>cells := (cells h)(data :=
            PDict (AList.update ''_language'' (PStr code)
                    (AList.update ''_rtl'' (PBool rtl) d)))\<rparr>)"
  using assms(2) translate_with_failure [OF assms(1) assms(3)]
  by (auto simp: translate_to_language_def translate_to_persian_def translate_to_chinese_def)

theorem C7_failure_returns_tagged_original_witness:
  "cells example_heap 0
     = PDict [(''product_family'', PStr ''Extraction Error''),
              (''category'', PStr ''AI Response Invalid''),
              (''company'', PDict []),
              (''products'', PList [])]
   \<and> lower ''Persian'' = ''persian''
   \<and> translate_try True ''fa'' server_error_world = Inr None
   \<and> fst (translate_to_language server_error_world 0 ''Persian'' example_heap) = Inr 0
   \<and> cells (snd (translate_to_language server_error_world 0 ''Persian'' example_heap)) 0
     = PDict [(''product_family'', PStr ''Extraction Error''),
              (''category'', PStr ''AI Response Invalid''),
              (''company'', PDict []),
              (''products'', PList []),
              (''_rtl'', PBool True),
              (''_language'', PStr ''fa'')]"
proof -
  have a: "cells example_heap 0
     = PDict [(''product_family'', PStr ''Extraction Error''),
              (''category'', PStr ''AI Response Invalid''),
              (''company'', PDict []),
              (''products'', PList [])]"
    by (simp add: example_heap_def extraction_error_def)
  have l: "lower ''Persian'' = ''persian''"
    by code_simp
  have b: "(lower ''Persian'' = ''persian'' \<and> True \<and> ''fa'' = ''fa'')
         \<or> (lower ''Persian'' = ''chinese'' \<and> \<not> True \<and> ''fa'' = ''zh'')"
    using l by simp
  have t: "translate_try True ''fa'' server_error_world = Inr None"
    by (simp add: translate_try_def server_error_world_def)
  have c: "(\<exists>e. translate_try True ''fa'' server_error_world = Inl e)
           \<or> translate_try True ''fa'' server_error_world = Inr None"
    using t by simp
  show ?thesis
    using a l t C7_failure_returns_tagged_original [OF a b c] by simp
qed

text \<open>
  C8, as stated, fails: after a failed translation the caller's own dictionary has the
  two tags.
\<close>

theorem C8_counterexample:
  "cells (snd (translate_to_language server_error_world 0 ''persian'' example_heap)) 0
     \<noteq> cells example_heap 0"
  by (simp add: translate_to_language_def translate_to_persian_def translate_with_def
      translate_try_def server_error_world_def tag_def example_heap_def extraction_error_def
      lower_def lower_char_def)

lemma translate_with_frame:
  assumes "translate_with rtl code w data h = (res, h')" and "data < next_free h"
  shows "(\<forall>a < next_free h. a \<noteq> data \<longrightarrow> cells h' a = cells h a)
     \<and> (cells h' data = cells h data
        \<or> (res = Inr data \<and> (\<exists>d. cells h data = PDict d \<and> cells h' data =
             PDict (AList.update ''_language'' (PStr code)
                     (AList.update ''_rtl'' (PBool rtl) d)))))"
proof (cases "translate_try rtl code w")
  case (Inr r)
  show ?thesis
  proof (cases r)
    case (Some t)
    with Inr assms show ?thesis
      by (auto simp: translate_with_def alloc_def)
  next
    case None
    with Inr assms tag_cases [of h data rtl code] show ?thesis
      by (auto simp: translate_with_def return_tagged_def)
  qed
next
  case (Inl e)
  with assms tag_cases [of h data rtl code] show ?thesis
    by (auto simp: translate_with_def return_tagged_def)
qed

lemma translation_world_try:
  "translate_try True ''fa'' translation_world
     = Inr (Some (PDict [(''_rtl'', PBool True), (''_language'', PStr ''fa'')]))"
  by code_simp

text \<open>
  C8, amended. A call of \<open>translate_to_language\<close> on an allocated document changes no
  other object of the store. The document itself is left as it was, or else the call
  returns this very dictionary with \<open>_rtl\<close> and \<open>_language\<close> assigned in place, which
  is what the failure paths do. So whenever a different object is returned (the
  translated document), the input is untouched.
\<close>

theorem C8_only_failure_tags_input:
  assumes "translate_to_language w data target h = (res, h')" and "data < next_free h"
  shows "(\<forall>a < next_free h. a \<noteq> data \<longrightarrow> cells h' a = cells h a)
     \<and> (cells h' data = cells h data
        \<or> (res = Inr data \<and> (\<exists>d rtl code. cells h data = PDict d \<and> cells h' data =
             PDict (AList.update ''_language'' (PStr code)
                     (AList.update ''_rtl'' (PBool rtl) d)))))"
proof (cases "lower target = ''persian''")
  case True
  with assms(1) have "translate_with True ''fa'' w data h = (res, h')"
    by (simp add: translate_to_language_def translate_to_persian_def)
  from translate_with_frame [OF this assms(2)] show ?thesis by blast
next
  case False
  show ?thesis
  proof (cases "lower target = ''chinese''")
    case True
    with False assms(1) have "translate_with False ''zh'' w data h = (res, h')"
      by (simp add: translate_to_language_def translate_to_chinese_def)
    from translate_with_frame [OF this assms(2)] show ?thesis by blast
  next
    case other: False
    with False assms(1) show ?thesis
      by (simp add: translate_to_language_def)
  qed
qed

theorem C8_only_failure_tags_input_witness:
  "0 < next_free example_heap
   \<and> fst (translate_to_language translation_world 0 ''persian'' example_heap) = Inr 1
   \<and> cells (snd (translate_to_language translation_world 0 ''persian'' example_heap)) 0
       = cells example_heap 0"
proof -
  have n: "0 < next_free example_heap"
    by (simp add: example_heap_def)
  have e: "translate_to_language translation_world 0 ''persian'' example_heap
      = (fst (translate_to_language translation_world 0 ''persian'' example_heap),
         snd (translate_to_language translation_world 0 ''persian'' example_heap))"
    by simp
  have r: "fst (translate_to_language translation_world 0 ''persian'' example_heap) = Inr 1"
    by (simp add: translate_to_language_def translate_to_persian_def translate_with_def
        translation_world_try alloc_def example_heap_def lower_def lower_char_def)
  show ?thesis
    using n r C8_only_failure_tags_input [OF e n] by auto
qed

section \<open>Fence stripping\<close>

lemma find_after_prefix: "find_after m (m @ r) = Some r"
proof (cases "m @ r")
  case Nil
  then show ?thesis by simp
next
  case (Cons a list)
  then have pre: "prefix m (a # list)"
    by (metis prefixI)
  have "drop (length m) (a # list) = r"
    using Cons by (metis append_eq_conv_conj)
  with pre Cons show ?thesis by simp
qed

lemma str_in_prefix: "prefix m s \<Longrightarrow> str_in m s"
  by (cases s) (auto simp: str_in_def)

lemma str_in_Cons: "str_in m s \<Longrightarrow> str_in m (x # s)"
  by (auto simp: str_in_def)

lemma str_in_append_left: "str_in m s \<Longrightarrow> str_in m (p @ s)"
  by (induction p) (auto intro: str_in_Cons)

lemma not_space_backquote [simp]: "\<not> is_space (CHR 0x60)"
  by (simp add: is_space_def)

lemma dropWhile_space_fence:
  "dropWhile is_space (u @ ''```'') = dropWhile is_space u @ ''```''"
  by (induction u) auto

lemma closes_all_space: "list_all is_space u \<Longrightarrow> closes (u @ ''```'')"
  by (induction u) (auto simp: closes_def)

lemma fence_inside:
  assumes "prefix ''```'' (v @ ''```'')" and "v \<noteq> []"
  shows "prefix ''```'' (v @ ''``'')"
proof -
  obtain a v1 where v: "v = a # v1" using assms(2) by (cases v) auto
  show ?thesis
  proof (cases v1)
    case Nil
    with v assms(1) show ?thesis by auto
  next
    case (Cons b v2)
    show ?thesis
    proof (cases v2)
      case Nil
      with v Cons assms(1) show ?thesis by auto
    next
      case (Cons c v3)
      with v \<open>v1 = b # v2\<close> assms(1) show ?thesis by auto
    qed
  qed
qed

lemma rtrim_Cons:
  "rev (dropWhile is_space (rev (x # u)))
     = (if list_all is_space (x # u) then [] else x # rev (dropWhile is_space (rev u)))"
  by (auto simp: dropWhile_append list_all_iff)

lemma lazy_until_fence:
  "\<not> str_in ''```'' (u @ ''``'') \<Longrightarrow>
   lazy_until acc (u @ ''```'') = Some (acc @ rev (dropWhile is_space (rev u)))"
proof (induction u arbitrary: acc)
  case Nil
  show ?case by (simp add: closes_def)
next
  case (Cons x u)
  have sub: "\<not> str_in ''```'' (u @ ''``'')"
    using Cons.prems str_in_Cons [of "''```''" "u @ ''``''" x] by auto
  show ?case
  proof (cases "list_all is_space (x # u)")
    case True
    then have "closes ((x # u) @ ''```'')" by (rule closes_all_space)
    moreover have "rev (dropWhile is_space (rev (x # u))) = []"
      using True rtrim_Cons [of x u] by simp
    ultimately show ?thesis by simp
  next
    case False
    have ne: "dropWhile is_space (x # u) \<noteq> []"
      using False by (auto simp: list_all_iff dropWhile_eq_Nil_conv)
    have "\<not> closes ((x # u) @ ''```'')"
    proof
      assume "closes ((x # u) @ ''```'')"
      then have "prefix ''```'' (dropWhile is_space (x # u) @ ''```'')"
        using dropWhile_space_fence [of "x # u"] by (simp add: closes_def)
      then have "prefix ''```'' (dropWhile is_space (x # u) @ ''``'')"
        using ne by (rule fence_inside)
      then have "str_in ''```'' (dropWhile is_space (x # u) @ ''``'')"
        by (rule str_in_prefix)
      then have "str_in ''```'' (takeWhile is_space (x # u) @ dropWhile is_space (x # u) @ ''``'')"
        by (rule str_in_append_left)
      then have "str_in ''```'' ((x # u) @ ''``'')"
        by (metis append.assoc takeWhile_dropWhile_id)
      with Cons.prems show False by simp
    qed
    then have "lazy_until acc ((x # u) @ ''```'') = lazy_until (acc @ [x]) (u @ ''```'')"
      by simp
    also have "\<dots> = Some ((acc @ [x]) @ rev (dropWhile is_space (rev u)))"
      using Cons.IH [OF sub] .
    also have "(acc @ [x]) @ rev (dropWhile is_space (rev u))
                 = acc @ rev (dropWhile is_space (rev (x # u)))"
      using False rtrim_Cons [of x u] by simp
    finally show ?thesis .
  qed
qed

lemma lazy_group_fence:
  assumes "\<not> str_in ''```'' (mid @ ''``'')"
  shows "lazy_group opening (opening @ mid @ ''```'') = Some (strip mid)"
proof -
  have "\<not> str_in ''```'' (dropWhile is_space mid @ ''``'')"
  proof
    assume "str_in ''```'' (dropWhile is_space mid @ ''``'')"
    then have "str_in ''```'' (takeWhile is_space mid @ dropWhile is_space mid @ ''``'')"
      by (rule str_in_append_left)
    then have "str_in ''```'' (mid @ ''``'')"
      by (metis append.assoc takeWhile_dropWhile_id)
    with assms show False by simp
  qed
  from lazy_until_fence [OF this, of "[]"] show ?thesis
    by (simp add: lazy_group_def find_after_prefix dropWhile_space_fence strip_def)
qed

lemma ltrim_rtrim:
  assumes "l = [] \<or> \<not> is_space (hd l)"
  shows "dropWhile is_space (rev (dropWhile is_space (rev l))) = rev (dropWhile is_space (rev l))"
proof (cases l)
  case Nil
  then show ?thesis by simp
next
  case (Cons x l')
  with assms have nx: "\<not> is_space x" by simp
  have "\<exists>y. dropWhile is_space (rev l' @ [x]) = y @ [x]"
    using nx by (auto simp: dropWhile_append)
  then obtain y where "dropWhile is_space (rev l' @ [x]) = y @ [x]" ..
  with Cons nx show ?thesis by simp
qed

lemma strip_idem: "strip (strip s) = strip s"
proof -
  have h: "dropWhile is_space s = [] \<or> \<not> is_space (hd (dropWhile is_space s))"
    by (metis hd_dropWhile)
  show ?thesis
    unfolding strip_def using ltrim_rtrim [OF h] by simp
qed

lemma parse_ai_response_strip: "parse_ai_response (PStr (strip s)) = parse_ai_response (PStr s)"
  by (simp add: parse_ai_response_def strip_idem)


text \<open>
  C4, as stated, fails for a language tag other than \<open>json\<close>: the tag is not taken off
  with the fence, the text \<open>python{}\<close> (with a line break between) is what gets parsed,
  and the result is the extraction-error document, not the interior's \<open>{}\<close>.
\<close>

theorem C4_counterexample:
  "parse_completion (PStr ''```python\<newline>{}\<newline>```'') = Inr extraction_error
   \<and> parse_ai_response (PStr ''{}'') = PDict []"
  by code_simp

text \<open>
  C4, amended. Take a completion that is a fenced block opened by \<open>```json\<close>, or by three
  backquotes when the text contains no \<open>```json\<close>, and closed by the first three
  backquotes that follow the opening. The response handling of \<open>_analyze_with_deepseek\<close>
  takes the fence off and parses the interior alone: the result is what
  \<open>_parse_ai_response\<close> gives on the interior.
\<close>

theorem C4_fence_stripped:
  assumes "\<not> str_in ''```'' (mid @ ''``'')"
  shows "parse_completion (PStr (''```json'' @ mid @ ''```''))
           = Inr (parse_ai_response (PStr mid))
    \<and> (\<not> str_in ''```json'' (''```'' @ mid @ ''```'') \<longrightarrow>
         parse_completion (PStr (''```'' @ mid @ ''```''))
           = Inr (parse_ai_response (PStr mid)))"
proof -
  have j: "str_in ''```json'' (''```json'' @ mid @ ''```'')"
    by (simp add: str_in_def find_after_prefix)
  have p: "str_in ''```'' (''```'' @ mid @ ''```'')"
    by (simp add: str_in_def find_after_prefix)
  have gj: "lazy_group ''```json'' (''```json'' @ mid @ ''```'') = Some (strip mid)"
    using assms by (rule lazy_group_fence)
  have gp: "lazy_group ''```'' (''```'' @ mid @ ''```'') = Some (strip mid)"
    using assms by (rule lazy_group_fence)
  have a: "parse_completion (PStr (''```json'' @ mid @ ''```''))
             = Inr (parse_ai_response (PStr mid))"
    using j gj
    by (simp add: parse_completion_def unfence_def search_group_def and_then_def
        parse_ai_response_strip del: append.simps)
  have b: "parse_completion (PStr (''```'' @ mid @ ''```''))
             = Inr (parse_ai_response (PStr mid))"
    if "\<not> str_in ''```json'' (''```'' @ mid @ ''```'')"
    using that p gp
    by (simp add: parse_completion_def unfence_def search_group_def and_then_def
        parse_ai_response_strip del: append.simps)
  from a b show ?thesis by blast
qed

theorem C4_fence_stripped_witness:
  "\<not> str_in ''```'' (''\<newline>{\"product_family\":\"X\",\"products\":[]}\<newline>'' @ ''``'')
   \<and> \<not> str_in ''```json''
         (''```'' @ ''\<newline>{\"product_family\":\"X\",\"products\":[]}\<newline>'' @ ''```'')
   \<and> parse_completion
         (PStr ''```json\<newline>{\"product_family\":\"X\",\"products\":[]}\<newline>```'')
       = Inr (PDict [(''product_family'', PStr ''X''), (''products'', PList [])])
   \<and> parse_completion
         (PStr ''```\<newline>{\"product_family\":\"X\",\"products\":[]}\<newline>```'')
       = Inr (PDict [(''product_family'', PStr ''X''), (''products'', PList [])])"
proof -
  have h: "\<not> str_in ''```''
             (''\<newline>{\"product_family\":\"X\",\"products\":[]}\<newline>'' @ ''``'')"
    by code_simp
  have n: "\<not> str_in ''```json''
         (''```'' @ ''\<newline>{\"product_family\":\"X\",\"products\":[]}\<newline>'' @ ''```'')"
    by code_simp
  have v: "parse_ai_response (PStr ''\<newline>{\"product_family\":\"X\",\"products\":[]}\<newline>'')
             = PDict [(''product_family'', PStr ''X''), (''products'', PList [])]"
    by code_simp
  show ?thesis
    using h n v C4_fence_stripped [OF h] by simp
qed

section \<open>The repair of trailing commas\<close>

subsection \<open>Decoding does not depend on contents\<close>

lemma erase_frame_idem [simp]: "erase_frame (erase_frame f) = erase_frame f"
  by (cases f) simp_all

lemma erase_idem [simp]: "erase (erase t) = erase t"
  by (cases t) simp_all






lemma erase_eq [simp]:
  "(erase t = TRBracket) = (t = TRBracket)" "(erase t = TRBrace) = (t = TRBrace)"
  "(erase t = TComma) = (t = TComma)" "(erase t = TColon) = (t = TColon)"
  by (cases t; simp)+

lemma shape_idem [simp]: "shape (shape s) = shape s"
  by (cases s) simp_all



subsection \<open>Dropping the commas keeps a lenient run\<close>

lemma value_step_comma [simp]: "value_step st TComma = None"
  by simp

lemma key_step_not_str: "(\<And>k. t \<noteq> TStr k) \<Longrightarrow> key_step st t = None"
  by (induction st t rule: key_step.induct) auto



subsection \<open>Without a comma before a closing token the lenient parser is the strict one\<close>










subsection \<open>No comma is left before a closing token\<close>







subsection \<open>The lexer on white space and on the first token\<close>





















subsection \<open>The substitution on characters is the substitution on tokens\<close>




lemma erase_closer:
  "k = TRBrace \<or> k = TRBracket \<Longrightarrow> erase k = k"
  by auto





subsection \<open>The lenient decoder accepts what the strict one accepts\<close>

lemma pstep_lenient:
  "pstep False s t = Some s' \<Longrightarrow> pstep True s t = Some s'"
proof (cases s)
  case (PS c st)
  assume a: "pstep False s t = Some s'"
  have kb: "key_step st TRBrace = None" by (rule key_step_not_str) simp
  from a PS kb show ?thesis by (cases c) (auto split: if_splits)
qed simp

lemma run_lenient:
  "run False s ts = Some r \<Longrightarrow> run True s ts = Some r"
  by (induction ts arbitrary: s) (auto split: option.splits dest: pstep_lenient)

lemma strict_is_lenient: "json_loads t = Some v \<Longrightarrow> decode True t = Some v"
  by (auto simp: json_loads_def decode_def split: option.splits pstate.splits dest: run_lenient)

subsection \<open>The repaired text decodes\<close>





end
